theory Spec2Isabelle
  imports Main "HOL-Library.AList" "HOL-Library.Sublist"
begin

section \<open>Python values and exceptions\<close>

text \<open>
  The launcher is Python. Every exception the modelled code can raise is a constructor of
  \<open>error\<close>; a function that may raise returns \<open>error + 'a\<close>, with \<open>Inl\<close> for the
  exception. \<open>NameError\<close> and \<open>UnboundLocalError\<close> carry the name that is not bound,
  \<open>KeyError\<close> the key, \<open>FileNotFoundError\<close> the path, \<open>CalledProcessError\<close> the
  exit status and the command, \<open>ValueError\<close> its message. \<open>RuntimeError\<close> is the one a
  \<open>dict\<close> raises when its size changes while it is iterated, \<open>RecursionError\<close> the one
  for a call beyond the recursion limit.
\<close>

datatype error =
    AttributeError
  | TypeError
  | RuntimeError
  | RecursionError
  | NameError string
  | UnboundLocalError string
  | KeyError string
  | FileNotFoundError string
  | ValueError string
  | CalledProcessError int string

section \<open>Configuration merging: \<open>update_config\<close>\<close>

text \<open>
  \<open>update_config\<close> changes its first argument in place, and a configuration read by
  \<open>yaml.safe_load\<close> may hold one \<open>dict\<close> object at several places (a YAML alias). So
  a \<open>dict\<close> is an object with an address: a value is a scalar (string, number, boolean,
  null; the merge treats them alike, the model keeps their text), a sequence, or a
  reference to a \<open>dict\<close>. The heap gives the items of every \<open>dict\<close>, in insertion
  order and with string keys, and the address the next new \<open>dict\<close> gets.
\<close>

datatype pyval =
    Scalar string
  | Sequence "pyval list"
  | Ref nat

record heap =
  objs :: "nat \<Rightarrow> (string \<times> pyval) list"
  fresh :: nat

text \<open>The heap that holds the given \<open>dict\<close>s at the addresses 0, 1, 2 and so on.\<close>

definition mk_heap :: "(string \<times> pyval) list list \<Rightarrow> heap" where
  "mk_heap dicts =
     \<lparr>objs = (\<lambda>a. if a < length dicts then dicts ! a else []), fresh = length dicts\<rparr>"

text \<open>
  \<open>d.get(key, {})\<close>: on a \<open>dict\<close> the value at the key, or else the new empty
  \<open>dict\<close>; a scalar or a sequence has no attribute \<open>get\<close>. Python builds the default
  \<open>{}\<close> on every call and drops it when the key is there; the model allocates only the
  one that is returned.
\<close>

definition dict_get :: "pyval \<Rightarrow> string \<Rightarrow> heap \<Rightarrow> (error + pyval) \<times> heap" where
  "dict_get d key h =
     (case d of
        Ref a \<Rightarrow>
          (case map_of (objs h a) key of
             Some v \<Rightarrow> (Inr v, h)
           | None \<Rightarrow>
               (Inr (Ref (fresh h)),
                h\<lparr>objs := (objs h)(fresh h := []), fresh := Suc (fresh h)\<rparr>))
      | _ \<Rightarrow> (Inl AttributeError, h))"

text \<open>
  \<open>d[key] = value\<close>: on a \<open>dict\<close> the object itself changes, an existing key keeps
  its place and a new key goes last; a scalar does not support item assignment, and a
  sequence takes no string index.
\<close>

definition dict_set :: "pyval \<Rightarrow> string \<Rightarrow> pyval \<Rightarrow> heap \<Rightarrow> (error + unit) \<times> heap" where
  "dict_set d key v h =
     (case d of
        Ref a \<Rightarrow> (Inr (), h\<lparr>objs := (objs h)(a := AList.update key v (objs h a))\<rparr>)
      | _ \<Rightarrow> (Inl TypeError, h))"

text \<open>
  The inner function \<open>_update(d, u)\<close>. The loop \<open>for key, value in u.items()\<close> reads
  the object \<open>u\<close> as it is at each step: \<open>i\<close> is the position of the next item and
  \<open>n\<close> the size of \<open>u\<close> when the loop began, and the iterator raises when the size is
  no longer that. \<open>isinstance(value, collections.abc.Mapping)\<close> is the case of a
  reference. \<open>depth\<close> is the number of nested calls the recursion limit still allows:
  the arguments of the recursive call are evaluated, then the call raises when none is left.
  A call \<open>_update(d, u)\<close> is \<open>update_loop depth d u 0 (length (objs h u)) h\<close>.
\<close>

function update_loop :: "nat \<Rightarrow> pyval \<Rightarrow> nat \<Rightarrow> nat \<Rightarrow> nat \<Rightarrow> heap \<Rightarrow> (error + pyval) \<times> heap" where
  "update_loop depth d u i n h =
     (if length (objs h u) \<noteq> n then (Inl RuntimeError, h)
      else if n \<le> i then (Inr d, h)
      else
        (case objs h u ! i of
           (key, value) \<Rightarrow>
             (case value of
                Ref v \<Rightarrow>
                  (case dict_get d key h of
                     (Inl e, h1) \<Rightarrow> (Inl e, h1)
                   | (Inr sub, h1) \<Rightarrow>
                       (case depth of
                          0 \<Rightarrow> (Inl RecursionError, h1)
                        | Suc depth' \<Rightarrow>
                            (case update_loop depth' sub v 0 (length (objs h1 v)) h1 of
                               (Inl e, h2) \<Rightarrow> (Inl e, h2)
                             | (Inr merged, h2) \<Rightarrow>
                                 (case dict_set d key merged h2 of
                                    (Inl e, h3) \<Rightarrow> (Inl e, h3)
                                  | (Inr x, h3) \<Rightarrow> update_loop depth d u (Suc i) n h3))))
              | _ \<Rightarrow>
                  (case dict_set d key value h of
                     (Inl e, h1) \<Rightarrow> (Inl e, h1)
                   | (Inr x, h1) \<Rightarrow> update_loop depth d u (Suc i) n h1))))"
  by pat_completeness auto
termination
  by (relation "measures [\<lambda>(depth, d, u, i, n, h). depth, \<lambda>(depth, d, u, i, n, h). n - i]")
     auto

declare update_loop.simps [simp del]

text \<open>
  \<open>update_config(config, overwrite_config)\<close> calls \<open>_update\<close> on its two arguments and
  returns nothing: its result is what \<open>_update\<close> returned, which is \<open>config\<close>, and the
  heap afterwards. \<open>u.items()\<close> needs a mapping. \<open>limit\<close> is the room the recursion
  limit leaves when \<open>update_config\<close> is called.
\<close>

definition update_config :: "nat \<Rightarrow> pyval \<Rightarrow> pyval \<Rightarrow> heap \<Rightarrow> (error + pyval) \<times> heap" where
  "update_config limit config overwrite_config h =
     (case overwrite_config of
        Ref u \<Rightarrow> update_loop limit config u 0 (length (objs h u)) h
      | _ \<Rightarrow> (Inl AttributeError, h))"



section \<open>Environment detection: \<open>scontrol_show\<close> and \<open>get_hpc\<close>\<close>

text \<open>
  A \<open>str\<close> is a list of characters, each a code point below 256. \<open>isspace\<close> holds
  of the characters that \<open>str.strip()\<close> removes in that range.
\<close>

definition isspace :: "char \<Rightarrow> bool" where
  "isspace c =
     (c \<in> set [CHR 0x09, CHR 0x0A, CHR 0x0B, CHR 0x0C, CHR 0x0D, CHR 0x1C, CHR 0x1D,
                CHR 0x1E, CHR 0x1F, CHR 0x20, CHR 0x85, CHR 0xA0])"

definition strip :: "string \<Rightarrow> string" where
  "strip s = rev (dropWhile isspace (rev (dropWhile isspace s)))"

text \<open>
  \<open>s.split(sep)\<close> with a separator of one character: the pieces between the
  separators, empty pieces included; the result is never empty.
\<close>

fun split_on :: "char \<Rightarrow> string \<Rightarrow> string list" where
  "split_on sep [] = [[]]"
| "split_on sep (c # cs) =
     (if c = sep then [] # split_on sep cs
      else (case split_on sep cs of
              [] \<Rightarrow> [[c]]
            | piece # pieces \<Rightarrow> (c # piece) # pieces))"

text \<open>
  What the program can observe of its surroundings, and what it does to them:
  the standard output of \<open>scontrol show config\<close> (empty when the command is missing or
  fails), the directory \<open>snake_base\<close> resolves paths against, the text files by path, the
  exit status of each shell command, and the effects so far, oldest first. Messages
  written to standard error carry a time stamp and are not part of the state.
\<close>

datatype event = Subprocess string | WriteFile string

record world =
  scontrol_stdout :: string
  basedir :: string
  files :: "string \<rightharpoonup> string"
  exit_status :: "string \<Rightarrow> int"
  events :: "event list"

text \<open>The body of the loop of \<open>scontrol_show\<close>, for one line.\<close>

definition scontrol_line :: "string \<Rightarrow> (string \<rightharpoonup> string) \<Rightarrow> (string \<rightharpoonup> string)" where
  "scontrol_line line scontrol_dict =
     (let line_split = split_on CHR ''='' line
      in if length line_split > 1
         then scontrol_dict(strip (line_split ! 0) \<mapsto> strip (line_split ! 1))
         else scontrol_dict)"

definition parse_scontrol :: "string \<Rightarrow> (string \<rightharpoonup> string)" where
  "parse_scontrol scontrol_out =
     (if length scontrol_out > 0
      then fold scontrol_line (split_on CHR 0x0A scontrol_out) Map.empty
      else Map.empty)"

text \<open>
  \<open>scontrol_show()\<close> runs the query (without \<open>check\<close>: its exit status is ignored) and
  parses what it printed.
\<close>

definition scontrol_show :: "world \<Rightarrow> (string \<rightharpoonup> string) \<times> world" where
  "scontrol_show w =
     (parse_scontrol (scontrol_stdout w),
      w\<lparr>events := events w @ [Subprocess ''scontrol show config'']\<rparr>)"

definition get_hpc :: "world \<Rightarrow> string option \<times> world" where
  "get_hpc w = (let (scontrol_out, w') = scontrol_show w in (scontrol_out ''ClusterName'', w'))"

section \<open>The registry and the paths of the installation\<close>

text \<open>The module-level table \<open>hpc_options\<close>, a \<open>dict\<close> of \<open>dict\<close>s.\<close>

definition hpc_options :: "(string \<times> (string \<times> string) list) list" where
  "hpc_options =
     [(''biowulf'', [(''profile'', ''biowulf''), (''slurm'', ''assets/slurm_header_biowulf.sh'')]),
      (''fnlcr'', [(''profile'', ''frce''), (''slurm'', ''assets/slurm_header_frce.sh'')])]"

text \<open>The subscript \<open>d[key]\<close> on a \<open>dict\<close>: a missing key raises \<open>KeyError\<close>.\<close>

definition getitem :: "(string \<times> 'v) list \<Rightarrow> string \<Rightarrow> error + 'v" where
  "getitem d key = (case map_of d key of None \<Rightarrow> Inl (KeyError key) | Some v \<Rightarrow> Inr v)"

text \<open>\<open>os.path.join(a, b)\<close> for two components, on POSIX.\<close>

definition path_join :: "string \<Rightarrow> string \<Rightarrow> string" where
  "path_join a b =
     (if b \<noteq> [] \<and> hd b = CHR ''/'' then b
      else if a = [] \<or> last a = CHR ''/'' then a @ b
      else a @ ''/'' @ b)"

text \<open>
  \<open>snake_base(rel_path)\<close> joins the path to the parent of the package directory, which
  the world gives as \<open>basedir\<close>.
\<close>

definition snake_base :: "world \<Rightarrow> string \<Rightarrow> string" where
  "snake_base w rel_path = path_join (basedir w) rel_path"

section \<open>The command line: tokens and their serialisation\<close>

text \<open>
  The list \<open>snake_command\<close> holds what the caller passed: strings, the integer
  \<open>threads\<close>, and \<open>None\<close> where no workflow file was given. \<open>str\<close> is Python's
  \<open>str()\<close> on these (an integer in decimal, \<open>digit_char\<close> being applied to numbers
  below ten only), \<open>join\<close> is \<open>sep.join(...)\<close>.
\<close>

datatype token = TNone | TStr string | TInt int

definition digit_char :: "nat \<Rightarrow> char" where
  "digit_char n = ''0123456789'' ! n"

fun str_nat :: "nat \<Rightarrow> string" where
  "str_nat n = (if n < 10 then [digit_char n] else str_nat (n div 10) @ [digit_char (n mod 10)])"

declare str_nat.simps [simp del]

definition str_int :: "int \<Rightarrow> string" where
  "str_int i = (if i < 0 then CHR ''-'' # str_nat (nat (- i)) else str_nat (nat i))"

fun str :: "token \<Rightarrow> string" where
  "str TNone = ''None''"
| "str (TStr s) = s"
| "str (TInt i) = str_int i"

fun join :: "string \<Rightarrow> string list \<Rightarrow> string" where
  "join sep [] = []"
| "join sep [x] = x"
| "join sep (x # y # ys) = x @ sep @ join sep (y # ys)"

section \<open>\<open>run_snakemake\<close>\<close>

text \<open>
  The arguments of \<open>run_snakemake\<close> that its body reads (\<open>configfile\<close>,
  \<open>cluster_config\<close> and the extra keywords are accepted and never used). A parameter
  whose default is \<open>None\<close> is an option.
\<close>

record run_args =
  snakefile_path :: "string option"
  mode :: string
  threads :: int
  snake_default :: "string list option"
  snake_args :: "string list"
  profile :: "string option"
  workflow_profile :: "string option"
  system_workflow_profile :: "string option"

text \<open>Truth value of an optional string (\<open>None\<close> and \<open>""\<close> are false) and of an optional list.\<close>

definition truthy :: "'a list option \<Rightarrow> bool" where
  "truthy x = (case x of None \<Rightarrow> False | Some s \<Rightarrow> s \<noteq> [])"

text \<open>
  Lines 147 and 153 to 166: the list \<open>snake_command\<close> once the executable, the workflow
  file, the threads, the default arguments, the user's arguments and the profile have been
  added, each by its own \<open>if\<close>.
\<close>

definition snake_command_tokens :: "run_args \<Rightarrow> token list" where
  "snake_command_tokens a =
     (let c0 = [TStr ''snakemake'', TStr ''-s'',
                (case snakefile_path a of None \<Rightarrow> TNone | Some p \<Rightarrow> TStr p)];
          c1 = (if ''--profile'' \<notin> set (snake_args a) \<and> profile a = None
                then c0 @ [TStr ''--cores'', TInt (threads a)] else c0);
          c2 = (if truthy (snake_default a) then c1 @ map TStr (the (snake_default a)) else c1);
          c3 = (if snake_args a \<noteq> [] then c2 @ map TStr (snake_args a) else c2);
          c4 = (if truthy (profile a) then c3 @ [TStr ''--profile'', TStr (the (profile a))] else c3)
      in c4)"

text \<open>
  The names that the module \<open>util.py\<close> binds at top level: its imports, its functions,
  its class and its table. A name a function reads that is neither one of its locals nor
  bound here nor a builtin raises \<open>NameError\<close> when it is evaluated.
\<close>

definition module_names :: "string list" where
  "module_names =
     [''create_citation'', ''validate_or_write_output'', ''localtime'', ''strftime'',
      ''click'', ''collections'', ''os'', ''shutil'', ''subprocess'', ''yaml'',
      ''snake_base'', ''get_version'', ''print_citation'', ''msg'', ''msg_box'',
      ''copy_config'', ''read_config'', ''update_config'', ''write_config'',
      ''OrderedCommands'', ''scontrol_show'', ''get_hpc'', ''hpc_options'', ''run_snakemake'']"

definition load_global :: "string \<Rightarrow> error + unit" where
  "load_global name = (if name \<in> set module_names then Inr () else Inl (NameError name))"

text \<open>
  Lines 171 to 175, \<open>copy_config(os.path.join(workflow_profile, "config.yaml"),
  system_config=system_workflow_profile, log=log)\<close>. Python evaluates the arguments
  before it enters the function: \<open>log\<close> is not a parameter or local of
  \<open>run_snakemake\<close>, so it is looked up in the module. Were it bound, the call would still
  not bind its keywords: \<open>copy_config\<close> has the parameters \<open>config_paths\<close> and
  \<open>overwrite\<close> only, which is a \<open>TypeError\<close>. The body of \<open>copy_config\<close> is never
  entered from here.
\<close>

definition copy_config_call :: "error + unit" where
  "copy_config_call = (case load_global ''log'' of Inl e \<Rightarrow> Inl e | Inr u \<Rightarrow> Inl TypeError)"

text \<open>
  Line 181, \<open>msg_box("Snakemake command", errmsg=snake_command, log=log)\<close>: the same
  name, and \<open>msg_box\<close> has the parameters \<open>splash\<close> and \<open>errmsg\<close> only.
\<close>

definition msg_box_call :: "error + unit" where
  "msg_box_call = (case load_global ''log'' of Inl e \<Rightarrow> Inl e | Inr u \<Rightarrow> Inl TypeError)"

text \<open>
  \<open>subprocess.run(run_command, shell=True, check=True)\<close>: the command runs, and a
  status other than 0 raises \<open>CalledProcessError\<close>.
\<close>

definition subprocess_run_check :: "string \<Rightarrow> world \<Rightarrow> (error + unit) \<times> world" where
  "subprocess_run_check run_command w =
     (let w' = w\<lparr>events := events w @ [Subprocess run_command]\<rparr>
      in if exit_status w run_command = 0 then (Inr (), w')
         else (Inl (CalledProcessError (exit_status w run_command) run_command), w'))"

text \<open>
  Lines 182 to 197, the choice of \<open>run_command\<close> and its execution. Opening
  \<open>submit_slurm.sh\<close> for writing creates or empties it before the registry and the
  header are read, and the \<open>with\<close> block closes it when they raise. In local mode
  \<open>snakemake_command\<close> is assigned only when a cluster was detected, and read either way.
\<close>

definition dispatch :: "string \<Rightarrow> string option \<Rightarrow> string \<Rightarrow> world \<Rightarrow> (error + unit) \<times> world" where
  "dispatch mode' hpc snake_command w =
     (if mode' = ''slurm'' then
        (let slurm_filename = ''submit_slurm.sh'';
             w1 = w\<lparr>files := (files w)(slurm_filename \<mapsto> []),
                     events := events w @ [WriteFile slurm_filename]\<rparr>
         in case (case hpc of None \<Rightarrow> Inl (KeyError ''None'') | Some h \<Rightarrow> getitem hpc_options h) of
              Inl e \<Rightarrow> (Inl e, w1)
            | Inr entry \<Rightarrow>
                (case getitem entry ''slurm'' of
                   Inl e \<Rightarrow> (Inl e, w1)
                 | Inr header \<Rightarrow>
                     (case files w1 (snake_base w1 header) of
                        None \<Rightarrow> (Inl (FileNotFoundError (snake_base w1 header)), w1)
                      | Some template \<Rightarrow>
                          subprocess_run_check (''sbatch '' @ slurm_filename)
                            (w1\<lparr>files := (files w1)(slurm_filename \<mapsto> template @ snake_command)\<rparr>))))
      else if mode' = ''local'' then
        (if truthy hpc
         then subprocess_run_check
                (''bash -c '' @ [CHR 0x22] @ ''module load snakemake && '' @ snake_command @ [CHR 0x22]) w
         else (Inl (UnboundLocalError ''snakemake_command''), w))
      else (Inl (ValueError (''mode '' @ mode' @ '' not recognized'')), w))"

text \<open>Lines 169 to 177, the workflow profile.\<close>

definition workflow_profile_block :: "run_args \<Rightarrow> token list \<Rightarrow> error + token list" where
  "workflow_profile_block a snake_command =
     (if truthy (workflow_profile a) then
        (case copy_config_call of
           Inl e \<Rightarrow> Inl e
         | Inr u \<Rightarrow> Inr (snake_command @ [TStr ''--workflow-profile'', TStr (the (workflow_profile a))]))
      else Inr snake_command)"

text \<open>The whole function, statement by statement.\<close>

definition run_snakemake :: "run_args \<Rightarrow> world \<Rightarrow> (error + unit) \<times> world" where
  "run_snakemake a w =
     (let (hpc, w1) = get_hpc w
      in if mode a = ''slurm'' \<and> \<not> truthy hpc
         then (Inl (ValueError ''mode is 'slurm' but no HPC environment was detected''), w1)
         else
           (case workflow_profile_block a (snake_command_tokens a) of
              Inl e \<Rightarrow> (Inl e, w1)
            | Inr snake_command_list \<Rightarrow>
                (let snake_command = join '' '' (map str snake_command_list)
                 in case msg_box_call of
                      Inl e \<Rightarrow> (Inl e, w1)
                    | Inr u \<Rightarrow> dispatch (mode a) hpc snake_command w1)))"

section \<open>Concrete invocations\<close>

text \<open>
  A machine without a resource manager (the query prints nothing) on which every command
  exits with status 0, with the two header templates and a default profile installed; the
  same machine as a node of the cluster \<open>biowulf\<close>; and as a node of a cluster the
  registry does not know.
\<close>

definition plain_world :: world where
  "plain_world =
     \<lparr>scontrol_stdout = [],
      basedir = ''/opt/tool_name'',
      files = [''/opt/tool_name/assets/slurm_header_biowulf.sh'' \<mapsto> ''#!/bin/bash'' @ [CHR 0x0A],
               ''/opt/tool_name/assets/slurm_header_frce.sh'' \<mapsto> ''#!/bin/bash'' @ [CHR 0x0A],
               ''/opt/tool_name/profile/config.yaml'' \<mapsto> ''jobs: 10'' @ [CHR 0x0A]],
      exit_status = (\<lambda>command. 0),
      events = []\<rparr>"

definition biowulf_world :: world where
  "biowulf_world =
     plain_world\<lparr>scontrol_stdout :=
       ''Configuration data as of 2024-01-01'' @ [CHR 0x0A] @
       ''ClusterName             = biowulf'' @ [CHR 0x0A] @
       ''SlurmUser               = slurm(1000)'' @ [CHR 0x0A]\<rparr>"

definition other_cluster_world :: world where
  "other_cluster_world =
     plain_world\<lparr>scontrol_stdout := ''ClusterName = foo'' @ [CHR 0x0A]\<rparr>"

text \<open>
  A call for the workflow file \<open>workflow/Snakefile\<close> in local mode with two threads,
  every other argument at its default.
\<close>

definition local_args :: run_args where
  "local_args =
     \<lparr>snakefile_path = Some ''workflow/Snakefile'',
      mode = ''local'',
      threads = 2,
      snake_default = None,
      snake_args = [],
      profile = None,
      workflow_profile = None,
      system_workflow_profile = None\<rparr>"

section \<open>Notions for the proof about the merge\<close>










section \<open>Properties of the merge\<close>


















lemma heap_same_objs: "h\<lparr>objs := (objs h)(a := objs h a)\<rparr> = h"
  by simp







text \<open>The equations that evaluate a merge on a concrete heap.\<close>

lemmas eval_merge = update_config_def mk_heap_def update_loop.simps dict_get_def dict_set_def



text \<open>
  Claim C5. The claim: merging succeeds for every pair of mappings, and where the base holds
  a non-mapping and the override a mapping at the same key, the override's value replaces
  the base's without an error. The code at base \<open>{a: 1}\<close> and override
  \<open>{a: {b: 2}}\<close>: \<open>d.get("a", {})\<close> returns the scalar 1, the recursive call assigns
  an item of it, and that raises \<open>TypeError\<close>. With the empty mapping as the override's value
  the recursive call has nothing to do and returns the scalar, which is stored again: the
  base's value stays. The other direction (a mapping in the base, a scalar in the override)
  does replace.
\<close>

theorem update_config_mapping_over_scalar:
  "fst (update_config 1000 (Ref 0) (Ref 1)
          (mk_heap [[(''a'', Scalar ''1'')], [(''a'', Ref 2)], [(''b'', Scalar ''2'')]]))
     = Inl TypeError \<and>
   fst (update_config 1000 (Ref 0) (Ref 1)
          (mk_heap [[(''a'', Scalar ''1'')], [(''a'', Ref 2)], []]))
     = Inr (Ref 0) \<and>
   objs (snd (update_config 1000 (Ref 0) (Ref 1)
          (mk_heap [[(''a'', Scalar ''1'')], [(''a'', Ref 2)], []]))) 0
     = [(''a'', Scalar ''1'')] \<and>
   fst (update_config 1000 (Ref 0) (Ref 1)
          (mk_heap [[(''a'', Ref 2)], [(''a'', Scalar ''1'')], [(''b'', Scalar ''2'')]]))
     = Inr (Ref 0) \<and>
   objs (snd (update_config 1000 (Ref 0) (Ref 1)
          (mk_heap [[(''a'', Ref 2)], [(''a'', Scalar ''1'')], [(''b'', Scalar ''2'')]]))) 0
     = [(''a'', Scalar ''1'')]"
  by (simp add: eval_merge)

section \<open>Properties of the environment detection\<close>

lemma split_on_append_sep:
  "sep \<notin> set a \<Longrightarrow> split_on sep (a @ sep # rest) = a # split_on sep rest"
  by (induction a) auto

lemma scontrol_line_two_separators:
  assumes "CHR ''='' \<notin> set key" and "CHR ''='' \<notin> set v"
  shows "scontrol_line (key @ ''='' @ v @ ''='' @ rest) d = d(strip key \<mapsto> strip v)"
proof -
  from assms have
    "split_on CHR ''='' (key @ CHR ''='' # v @ CHR ''='' # rest)
       = key # v # split_on CHR ''='' rest"
    by (simp add: split_on_append_sep)
  then show ?thesis by (simp add: scontrol_line_def)
qed

text \<open>Lines that do not store a key leave its entry alone.\<close>

lemma fold_scontrol_line_keeps:
  assumes "\<forall>l \<in> set later. length (split_on CHR ''='' l) > 1 \<longrightarrow>
             strip (split_on CHR ''='' l ! 0) \<noteq> k"
  shows "fold scontrol_line later d k = d k"
  using assms
proof (induction later arbitrary: d)
  case Nil
  then show ?case by simp
next
  case (Cons l later)
  then have "fold scontrol_line later (scontrol_line l d) k = scontrol_line l d k" by simp
  moreover from Cons.prems have "scontrol_line l d k = d k"
    by (auto simp: scontrol_line_def Let_def)
  ultimately show ?case by simp
qed

text \<open>Stripping on the right cuts a suffix off, and never beyond a character that is kept.\<close>

lemma rstrip_prefix: "prefix (rev (dropWhile P (rev xs))) xs"
proof -
  have "xs = rev (takeWhile P (rev xs) @ dropWhile P (rev xs))" by simp
  then have "xs = rev (dropWhile P (rev xs)) @ rev (takeWhile P (rev xs))"
    by (simp only: rev_append)
  then show ?thesis by (metis prefixI)
qed

lemma rstrip_keeps:
  "\<not> P z \<Longrightarrow> rev (dropWhile P (rev (ys @ z # zs))) = ys @ z # rev (dropWhile P (rev zs))"
  by (simp add: dropWhile_append)

lemma strip_cut_strict_prefix:
  assumes "\<not> isspace c"
  shows "strict_prefix (strip v) (strip (v @ c # rest))"
proof (cases "dropWhile isspace v")
  case Nil
  then have all: "\<forall>x \<in> set v. isspace x" by (simp add: dropWhile_eq_Nil_conv)
  then have "dropWhile isspace (v @ c # rest) = c # rest"
    using assms by (simp add: dropWhile_append)
  then have "strip (v @ c # rest) = c # rev (dropWhile isspace (rev rest))"
    using rstrip_keeps [where P = isspace and z = c and ys = "[]" and zs = rest, OF assms]
    by (simp add: strip_def)
  moreover have "strip v = []" unfolding strip_def Nil by simp
  ultimately show ?thesis by simp
next
  case (Cons x v')
  have some: "\<not> (\<forall>x \<in> set v. isspace x)"
  proof
    assume "\<forall>x \<in> set v. isspace x"
    then have "dropWhile isspace v = []" by (simp add: dropWhile_eq_Nil_conv)
    with Cons show False by simp
  qed
  have "dropWhile isspace (v @ c # rest) = (x # v') @ c # rest"
    using some Cons by (auto simp: dropWhile_append)
  then have whole: "strip (v @ c # rest) = (x # v') @ c # rev (dropWhile isspace (rev rest))"
    using rstrip_keeps [where P = isspace and z = c and ys = "x # v'" and zs = rest, OF assms]
    by (simp add: strip_def)
  have "prefix (strip v) (x # v')"
    using rstrip_prefix [of isspace "x # v'"] Cons by (simp add: strip_def)
  then obtain t where t: "x # v' = strip v @ t" by (auto simp: prefix_def)
  have "strip (v @ c # rest) = strip v @ (t @ c # rev (dropWhile isspace (rev rest)))"
    unfolding whole by (subst t) simp
  then show ?thesis by (metis strict_prefixI' append_is_Nil_conv list.distinct(1) neq_Nil_conv)
qed

lemma snd_get_hpc:
  "snd (get_hpc w) = w\<lparr>events := events w @ [Subprocess ''scontrol show config'']\<rparr>"
  by (simp add: get_hpc_def scontrol_show_def)

lemma fst_get_hpc: "fst (get_hpc w) = parse_scontrol (scontrol_stdout w) ''ClusterName''"
  by (simp add: get_hpc_def scontrol_show_def)

text \<open>
  Claim C10. Take any line of the query's output with at least two \<open>=\<close>: a key part, a
  first piece, and a remainder after the second \<open>=\<close>. The loop body stores at the trimmed
  key the trimmed first piece only, and unless a later line stores the same key, that is the
  entry of the facts \<open>scontrol_show\<close> returns. What follows the second \<open>=\<close> is
  dropped: the stored value is a strict prefix of the trimmed text after the first \<open>=\<close>.
\<close>

theorem scontrol_show_second_separator:
  assumes "split_on CHR 0x0A (scontrol_stdout w) = earlier @ [key @ ''='' @ v @ ''='' @ rest] @ later"
    and "CHR ''='' \<notin> set key" and "CHR ''='' \<notin> set v"
    and "\<forall>l \<in> set later. length (split_on CHR ''='' l) > 1 \<longrightarrow>
           strip (split_on CHR ''='' l ! 0) \<noteq> strip key"
  shows "scontrol_line (key @ ''='' @ v @ ''='' @ rest) d = d(strip key \<mapsto> strip v) \<and>
         fst (scontrol_show w) (strip key) = Some (strip v) \<and>
         strict_prefix (strip v) (strip (v @ ''='' @ rest))"
proof -
  let ?out = "scontrol_stdout w"
  let ?before = "fold scontrol_line earlier Map.empty"
  have ne: "?out \<noteq> []" using assms(1) by (cases earlier) auto
  have "parse_scontrol ?out (strip key) =
        fold scontrol_line later (scontrol_line (key @ ''='' @ v @ ''='' @ rest) ?before) (strip key)"
    using ne assms(1) by (simp add: parse_scontrol_def)
  also have "\<dots> = scontrol_line (key @ ''='' @ v @ ''='' @ rest) ?before (strip key)"
    by (rule fold_scontrol_line_keeps [OF assms(4)])
  also have "\<dots> = Some (strip v)"
    using scontrol_line_two_separators [OF assms(2,3), of rest ?before] by simp
  finally have stored: "fst (scontrol_show w) (strip key) = Some (strip v)"
    by (simp add: scontrol_show_def)
  have "\<not> isspace CHR ''=''" by (simp add: isspace_def)
  from strip_cut_strict_prefix [OF this] stored
    scontrol_line_two_separators [OF assms(2,3), of rest d]
  show ?thesis by simp
qed

theorem scontrol_show_second_separator_witness:
  "fst (scontrol_show
          (plain_world\<lparr>scontrol_stdout :=
             ''SchedulerParameters = bf_continue,max_rpc_cnt=150'' @ [CHR 0x0A] @
             ''ClusterName = biowulf'' @ [CHR 0x0A]\<rparr>))
     ''SchedulerParameters'' = Some ''bf_continue,max_rpc_cnt'' \<and>
   strict_prefix ''bf_continue,max_rpc_cnt'' ''bf_continue,max_rpc_cnt=150''"
proof -
  let ?w = "plain_world\<lparr>scontrol_stdout :=
             ''SchedulerParameters = bf_continue,max_rpc_cnt=150'' @ [CHR 0x0A] @
             ''ClusterName = biowulf'' @ [CHR 0x0A]\<rparr>"
  have lines: "split_on CHR 0x0A (scontrol_stdout ?w)
      = [] @ [''SchedulerParameters '' @ ''='' @ '' bf_continue,max_rpc_cnt'' @ ''='' @ ''150'']
           @ [''ClusterName = biowulf'', []]"
    by simp
  have key: "CHR ''='' \<notin> set ''SchedulerParameters ''" by simp
  have v: "CHR ''='' \<notin> set '' bf_continue,max_rpc_cnt''" by simp
  have later: "\<forall>l \<in> set [''ClusterName = biowulf'', []].
      length (split_on CHR ''='' l) > 1 \<longrightarrow>
        strip (split_on CHR ''='' l ! 0) \<noteq> strip ''SchedulerParameters ''"
    by (simp add: strip_def isspace_def)
  from scontrol_show_second_separator [OF lines key v later] show ?thesis
    by (simp add: strip_def isspace_def)
qed

section \<open>Properties of \<open>run_snakemake\<close>\<close>

lemma load_global_log: "load_global ''log'' = Inl (NameError ''log'')"
  by (simp add: load_global_def module_names_def)

text \<open>The only guard before the command is assembled: scheduler mode without a cluster.\<close>

lemma run_snakemake_no_hpc:
  "mode a = ''slurm'' \<Longrightarrow> \<not> truthy (fst (get_hpc w)) \<Longrightarrow>
   run_snakemake a w =
     (Inl (ValueError ''mode is 'slurm' but no HPC environment was detected''),
      w\<lparr>events := events w @ [Subprocess ''scontrol show config'']\<rparr>)"
  by (simp add: run_snakemake_def split_beta snd_get_hpc)

text \<open>
  Every call that gets past that guard ends at the first statement that reads \<open>log\<close>:
  line 174 with a workflow profile, line 181 without. Nothing but the query has happened
  by then.
\<close>

lemma run_snakemake_past_guard:
  "\<not> (mode a = ''slurm'' \<and> \<not> truthy (fst (get_hpc w))) \<Longrightarrow>
   run_snakemake a w =
     (Inl (NameError ''log''), w\<lparr>events := events w @ [Subprocess ''scontrol show config'']\<rparr>)"
  by (auto simp: run_snakemake_def split_beta workflow_profile_block_def copy_config_call_def
      msg_box_call_def load_global_log Let_def snd_get_hpc)

lemma hpc_plain: "fst (get_hpc plain_world) = None"
  by (simp add: fst_get_hpc plain_world_def parse_scontrol_def)

lemma hpc_biowulf: "fst (get_hpc biowulf_world) = Some ''biowulf''"
  by (simp add: fst_get_hpc biowulf_world_def plain_world_def parse_scontrol_def
      scontrol_line_def strip_def isspace_def)

lemma hpc_other: "fst (get_hpc other_cluster_world) = Some ''foo''"
  by (simp add: fst_get_hpc other_cluster_world_def plain_world_def parse_scontrol_def
      scontrol_line_def strip_def isspace_def)

lemma str_int_2: "str_int 2 = ''2''"
  by (simp add: str_int_def str_nat.simps digit_char_def)

lemma str_int_4: "str_int 4 = ''4''"
  by (simp add: str_int_def str_nat.simps digit_char_def)

text \<open>The list of lines 147 to 166 as one concatenation.\<close>

lemma snake_command_tokens_eq:
  "snake_command_tokens a =
     [TStr ''snakemake'', TStr ''-s'', (case snakefile_path a of None \<Rightarrow> TNone | Some p \<Rightarrow> TStr p)]
     @ (if ''--profile'' \<notin> set (snake_args a) \<and> profile a = None
        then [TStr ''--cores'', TInt (threads a)] else [])
     @ (case snake_default a of None \<Rightarrow> [] | Some ds \<Rightarrow> map TStr ds)
     @ map TStr (snake_args a)
     @ (case profile a of None \<Rightarrow> [] | Some p \<Rightarrow> if p = [] then [] else [TStr ''--profile'', TStr p])"
  by (simp add: snake_command_tokens_def truthy_def Let_def split: option.splits)

text \<open>
  Claim C1. The claim: in local mode with no cluster detected the command is run as it
  stands, and the call succeeds exactly when the command exits with 0. The code, for
  \<open>workflow/Snakefile\<close> with two threads on a machine where every command would exit with
  0: the command is assembled as \<open>snakemake -s workflow/Snakefile --cores 2\<close>, but the call
  raises \<open>NameError\<close> for \<open>log\<close> at line 181, and only the query has been run. Lines 182 to
  197 would not run it either: without a cluster \<open>snakemake_command\<close> is read unassigned.
\<close>

theorem run_snakemake_local_raises:
  "fst (run_snakemake local_args plain_world) = Inl (NameError ''log'') \<and>
   events (snd (run_snakemake local_args plain_world)) = [Subprocess ''scontrol show config''] \<and>
   join '' '' (map str (snake_command_tokens local_args))
     = ''snakemake -s workflow/Snakefile --cores 2'' \<and>
   exit_status plain_world ''snakemake -s workflow/Snakefile --cores 2'' = 0 \<and>
   fst (dispatch ''local'' None ''snakemake -s workflow/Snakefile --cores 2'' plain_world)
     = Inl (UnboundLocalError ''snakemake_command'')"
proof -
  have guard: "\<not> (mode local_args = ''slurm'' \<and> \<not> truthy (fst (get_hpc plain_world)))"
    by (simp add: local_args_def)
  have 1: "fst (run_snakemake local_args plain_world) = Inl (NameError ''log'')"
    by (simp add: run_snakemake_past_guard [OF guard])
  have "snd (run_snakemake local_args plain_world)
          = plain_world\<lparr>events := events plain_world @ [Subprocess ''scontrol show config'']\<rparr>"
    by (simp add: run_snakemake_past_guard [OF guard])
  then have 2: "events (snd (run_snakemake local_args plain_world))
                  = [Subprocess ''scontrol show config'']"
    by (simp add: plain_world_def)
  have 3: "join '' '' (map str (snake_command_tokens local_args))
             = ''snakemake -s workflow/Snakefile --cores 2''"
    by (simp add: snake_command_tokens_def local_args_def truthy_def str_int_2)
  have 4: "exit_status plain_world ''snakemake -s workflow/Snakefile --cores 2'' = 0"
    by (simp add: plain_world_def)
  have 5: "fst (dispatch ''local'' None ''snakemake -s workflow/Snakefile --cores 2'' plain_world)
             = Inl (UnboundLocalError ''snakemake_command'')"
    by (simp add: dispatch_def truthy_def)
  from 1 2 3 4 5 show ?thesis by blast
qed

text \<open>
  Claim C2. The claim: when a workflow profile is requested and its \<open>config.yaml\<close> is
  absent, the default is copied into place before the flag is added. The code, for the
  profile directory \<open>profile\<close> with no \<open>profile/config.yaml\<close> and the default installed:
  the call raises \<open>NameError\<close> for \<open>log\<close> at line 174 while the arguments of
  \<open>copy_config\<close> are evaluated; no file has been written and \<open>profile/config.yaml\<close> is
  still absent.
\<close>

theorem workflow_profile_config_not_copied:
  "files plain_world ''profile/config.yaml'' = None \<and>
   files plain_world ''/opt/tool_name/profile/config.yaml'' = Some (''jobs: 10'' @ [CHR 0x0A]) \<and>
   run_snakemake
       (local_args\<lparr>workflow_profile := Some ''profile'',
                    system_workflow_profile := Some ''/opt/tool_name/profile/config.yaml''\<rparr>)
       plain_world
     = (Inl (NameError ''log''),
        plain_world\<lparr>events := [Subprocess ''scontrol show config'']\<rparr>) \<and>
   files (plain_world\<lparr>events := [Subprocess ''scontrol show config'']\<rparr>) ''profile/config.yaml''
     = None"
proof -
  let ?a = "local_args\<lparr>workflow_profile := Some ''profile'',
                    system_workflow_profile := Some ''/opt/tool_name/profile/config.yaml''\<rparr>"
  have "\<not> (mode ?a = ''slurm'' \<and> \<not> truthy (fst (get_hpc plain_world)))"
    by (simp add: local_args_def)
  then have "run_snakemake ?a plain_world
     = (Inl (NameError ''log''),
        plain_world\<lparr>events := events plain_world @ [Subprocess ''scontrol show config'']\<rparr>)"
    by (rule run_snakemake_past_guard)
  moreover have "events plain_world = []" by (simp add: plain_world_def)
  moreover have "files plain_world ''profile/config.yaml'' = None"
    "files plain_world ''/opt/tool_name/profile/config.yaml'' = Some (''jobs: 10'' @ [CHR 0x0A])"
    by (simp_all add: plain_world_def)
  ultimately show ?thesis by simp
qed

text \<open>
  Claim C3, as the code has it. For every mode other than \<open>local\<close> and \<open>slurm\<close> the call
  fails, and all it has done by then is run the environment query, which comes before the
  mode is looked at: no file is written and no other command is run.
\<close>

theorem unrecognized_mode_effects:
  assumes "mode a \<noteq> ''local''" and "mode a \<noteq> ''slurm''"
  shows "(\<exists>e. fst (run_snakemake a w) = Inl e) \<and>
         snd (run_snakemake a w) = w\<lparr>events := events w @ [Subprocess ''scontrol show config'']\<rparr>"
  using assms by (simp add: run_snakemake_past_guard)

theorem unrecognized_mode_effects_witness:
  "mode (local_args\<lparr>mode := ''bogus''\<rparr>) \<noteq> ''local'' \<and>
   mode (local_args\<lparr>mode := ''bogus''\<rparr>) \<noteq> ''slurm'' \<and>
   (\<exists>e. fst (run_snakemake (local_args\<lparr>mode := ''bogus''\<rparr>) plain_world) = Inl e) \<and>
   snd (run_snakemake (local_args\<lparr>mode := ''bogus''\<rparr>) plain_world)
     = plain_world\<lparr>events := events plain_world @ [Subprocess ''scontrol show config'']\<rparr>"
proof -
  have 1: "mode (local_args\<lparr>mode := ''bogus''\<rparr>) \<noteq> ''local''"
    and 2: "mode (local_args\<lparr>mode := ''bogus''\<rparr>) \<noteq> ''slurm''" by simp_all
  from unrecognized_mode_effects [OF 1 2, of plain_world] 1 2 show ?thesis by blast
qed

text \<open>
  The claim as stated fails at the mode \<open>bogus\<close>: a subprocess has been run when the call
  fails, and the exception is not the one for an unrecognized mode.
\<close>

theorem unrecognized_mode_counterexample:
  "fst (run_snakemake (local_args\<lparr>mode := ''bogus''\<rparr>) plain_world) = Inl (NameError ''log'') \<and>
   events (snd (run_snakemake (local_args\<lparr>mode := ''bogus''\<rparr>) plain_world))
     = [Subprocess ''scontrol show config'']"
proof -
  have "\<not> (mode (local_args\<lparr>mode := ''bogus''\<rparr>) = ''slurm''
            \<and> \<not> truthy (fst (get_hpc plain_world)))"
    by simp
  from run_snakemake_past_guard [OF this] have
    "run_snakemake (local_args\<lparr>mode := ''bogus''\<rparr>) plain_world
       = (Inl (NameError ''log''),
          plain_world\<lparr>events := events plain_world @ [Subprocess ''scontrol show config'']\<rparr>)" .
  moreover have "events plain_world = []" by (simp add: plain_world_def)
  ultimately show ?thesis by simp
qed

text \<open>
  Claim C4, as the code has it. In scheduler mode with no cluster detected (no
  \<open>ClusterName\<close> among the facts, or an empty one) the call fails with the error for a
  missing HPC environment right after the query, and nothing is submitted. With a detected
  cluster that the registry does not list there is no check of its own: the call fails too,
  and the query is all that has run, so nothing is submitted.
\<close>

theorem slurm_unsupported_environment:
  "(mode a = ''slurm'' \<and> \<not> truthy (fst (get_hpc w)) \<longrightarrow>
      run_snakemake a w =
        (Inl (ValueError ''mode is 'slurm' but no HPC environment was detected''),
         w\<lparr>events := events w @ [Subprocess ''scontrol show config'']\<rparr>)) \<and>
   (mode a = ''slurm'' \<and> truthy (fst (get_hpc w)) \<and>
    map_of hpc_options (the (fst (get_hpc w))) = None \<longrightarrow>
      (\<exists>e. fst (run_snakemake a w) = Inl e) \<and>
      snd (run_snakemake a w) = w\<lparr>events := events w @ [Subprocess ''scontrol show config'']\<rparr>)"
  by (simp add: run_snakemake_no_hpc run_snakemake_past_guard)

theorem slurm_unsupported_environment_witness:
  "mode (local_args\<lparr>mode := ''slurm''\<rparr>) = ''slurm'' \<and>
   \<not> truthy (fst (get_hpc plain_world)) \<and>
   run_snakemake (local_args\<lparr>mode := ''slurm''\<rparr>) plain_world =
     (Inl (ValueError ''mode is 'slurm' but no HPC environment was detected''),
      plain_world\<lparr>events := events plain_world @ [Subprocess ''scontrol show config'']\<rparr>) \<and>
   truthy (fst (get_hpc other_cluster_world)) \<and>
   map_of hpc_options (the (fst (get_hpc other_cluster_world))) = None \<and>
   (\<exists>e. fst (run_snakemake (local_args\<lparr>mode := ''slurm''\<rparr>) other_cluster_world) = Inl e) \<and>
   snd (run_snakemake (local_args\<lparr>mode := ''slurm''\<rparr>) other_cluster_world)
     = other_cluster_world\<lparr>events :=
         events other_cluster_world @ [Subprocess ''scontrol show config'']\<rparr>"
proof -
  have m: "mode (local_args\<lparr>mode := ''slurm''\<rparr>) = ''slurm''" by simp
  have p: "\<not> truthy (fst (get_hpc plain_world))" by (simp add: hpc_plain truthy_def)
  have o: "truthy (fst (get_hpc other_cluster_world))"
    "map_of hpc_options (the (fst (get_hpc other_cluster_world))) = None"
    by (simp_all add: hpc_other truthy_def hpc_options_def)
  from slurm_unsupported_environment [of "local_args\<lparr>mode := ''slurm''\<rparr>" plain_world]
       slurm_unsupported_environment [of "local_args\<lparr>mode := ''slurm''\<rparr>" other_cluster_world]
       m p o
  show ?thesis by blast
qed

text \<open>
  The claim as stated fails on the cluster \<open>foo\<close>, which is detected and not in the
  registry: the exception is not the one for an unsupported environment.
\<close>

theorem unregistered_cluster_counterexample:
  "fst (get_hpc other_cluster_world) = Some ''foo'' \<and>
   map_of hpc_options ''foo'' = None \<and>
   fst (run_snakemake (local_args\<lparr>mode := ''slurm''\<rparr>) other_cluster_world)
     = Inl (NameError ''log'')"
proof -
  have "\<not> (mode (local_args\<lparr>mode := ''slurm''\<rparr>) = ''slurm''
            \<and> \<not> truthy (fst (get_hpc other_cluster_world)))"
    by (simp add: hpc_other truthy_def)
  from run_snakemake_past_guard [OF this] hpc_other show ?thesis
    by (simp add: hpc_options_def)
qed

text \<open>
  Claim C7, as the code has it. When no \<open>--profile\<close> is among the user's arguments and
  no profile is given, the pair \<open>--cores\<close>, \<open>threads\<close> comes right after the workflow file,
  followed by the default arguments, the user's arguments and the profile flag. Otherwise
  no such pair is added: the list is the executable, \<open>-s\<close> and the workflow file, followed
  at once by the default arguments, the user's arguments and the profile flag, so that it
  holds the token \<open>--cores\<close> only where the workflow path, the default arguments, the
  user's arguments or the profile name are that token.
\<close>

theorem snake_command_cores:
  "(''--profile'' \<notin> set (snake_args a) \<and> profile a = None \<longrightarrow>
      snake_command_tokens a =
        [TStr ''snakemake'', TStr ''-s'',
         (case snakefile_path a of None \<Rightarrow> TNone | Some p \<Rightarrow> TStr p),
         TStr ''--cores'', TInt (threads a)]
        @ (case snake_default a of None \<Rightarrow> [] | Some ds \<Rightarrow> map TStr ds)
        @ map TStr (snake_args a)
        @ (case profile a of None \<Rightarrow> []
           | Some p \<Rightarrow> if p = [] then [] else [TStr ''--profile'', TStr p])) \<and>
   (\<not> (''--profile'' \<notin> set (snake_args a) \<and> profile a = None) \<longrightarrow>
      snake_command_tokens a =
        [TStr ''snakemake'', TStr ''-s'',
         (case snakefile_path a of None \<Rightarrow> TNone | Some p \<Rightarrow> TStr p)]
        @ (case snake_default a of None \<Rightarrow> [] | Some ds \<Rightarrow> map TStr ds)
        @ map TStr (snake_args a)
        @ (case profile a of None \<Rightarrow> []
           | Some p \<Rightarrow> if p = [] then [] else [TStr ''--profile'', TStr p]) \<and>
      (TStr ''--cores'' \<in> set (snake_command_tokens a) \<longleftrightarrow>
         snakefile_path a = Some ''--cores'' \<or>
         (\<exists>ds. snake_default a = Some ds \<and> ''--cores'' \<in> set ds) \<or>
         ''--cores'' \<in> set (snake_args a) \<or>
         profile a = Some ''--cores''))"
  unfolding snake_command_tokens_eq
  by (auto split: option.splits)

theorem snake_command_cores_witness:
  "''--profile'' \<notin> set (snake_args (local_args\<lparr>threads := 4\<rparr>)) \<and>
   profile (local_args\<lparr>threads := 4\<rparr>) = None \<and>
   snake_command_tokens (local_args\<lparr>threads := 4\<rparr>) =
     [TStr ''snakemake'', TStr ''-s'', TStr ''workflow/Snakefile'', TStr ''--cores'', TInt 4] \<and>
   map str [TStr ''--cores'', TInt 4] = [''--cores'', ''4''] \<and>
   profile (local_args\<lparr>threads := 4, profile := Some ''slurm''\<rparr>) \<noteq> None \<and>
   snake_command_tokens (local_args\<lparr>threads := 4, profile := Some ''slurm''\<rparr>) =
     [TStr ''snakemake'', TStr ''-s'', TStr ''workflow/Snakefile'', TStr ''--profile'', TStr ''slurm''] \<and>
   TStr ''--cores'' \<notin> set (snake_command_tokens (local_args\<lparr>threads := 4, profile := Some ''slurm''\<rparr>))"
  using snake_command_cores [of "local_args\<lparr>threads := 4\<rparr>"]
    snake_command_cores [of "local_args\<lparr>threads := 4, profile := Some ''slurm''\<rparr>"]
  by (simp add: local_args_def str_int_4)

text \<open>
  The claim as stated fails where the user passes \<open>--cores\<close>: with the profile \<open>slurm\<close>
  given, the command still holds \<open>--cores 4\<close>.
\<close>

theorem cores_with_profile_counterexample:
  "profile (local_args\<lparr>threads := 4, snake_args := [''--cores'', ''4''], profile := Some ''slurm''\<rparr>)
     = Some ''slurm'' \<and>
   map str (snake_command_tokens
     (local_args\<lparr>threads := 4, snake_args := [''--cores'', ''4''], profile := Some ''slurm''\<rparr>))
     = [''snakemake'', ''-s'', ''workflow/Snakefile'', ''--cores'', ''4'', ''--profile'', ''slurm'']"
  by (simp add: snake_command_tokens_def local_args_def truthy_def)

text \<open>
  Claim C8. The claim: every assembled command is, in this order, the executable, \<open>-s\<close>
  with the workflow file, the thread flags, the default arguments, the user's arguments, the
  profile flag, and last the workflow-profile flag with its path. The code does build the
  list in that order up to the profile flag. With a workflow profile requested, here
  \<open>profile\<close>, lines 169 to 177 raise \<open>NameError\<close> for \<open>log\<close> before the flag is
  added, and the call ends there: no command with \<open>--workflow-profile\<close> is ever
  assembled.
\<close>

theorem snake_command_order_workflow_profile:
  "snake_command_tokens a =
     [TStr ''snakemake'', TStr ''-s'', (case snakefile_path a of None \<Rightarrow> TNone | Some p \<Rightarrow> TStr p)]
     @ (if ''--profile'' \<notin> set (snake_args a) \<and> profile a = None
        then [TStr ''--cores'', TInt (threads a)] else [])
     @ (case snake_default a of None \<Rightarrow> [] | Some ds \<Rightarrow> map TStr ds)
     @ map TStr (snake_args a)
     @ (case profile a of None \<Rightarrow> [] | Some p \<Rightarrow> if p = [] then [] else [TStr ''--profile'', TStr p]) \<and>
   workflow_profile_block (local_args\<lparr>workflow_profile := Some ''profile''\<rparr>)
       (snake_command_tokens (local_args\<lparr>workflow_profile := Some ''profile''\<rparr>))
     = Inl (NameError ''log'') \<and>
   fst (run_snakemake (local_args\<lparr>workflow_profile := Some ''profile''\<rparr>) plain_world)
     = Inl (NameError ''log'')"
proof -
  let ?a = "local_args\<lparr>workflow_profile := Some ''profile''\<rparr>"
  have "workflow_profile_block ?a (snake_command_tokens ?a) = Inl (NameError ''log'')"
    by (simp add: workflow_profile_block_def truthy_def copy_config_call_def load_global_log)
  moreover have "\<not> (mode ?a = ''slurm'' \<and> \<not> truthy (fst (get_hpc plain_world)))"
    by (simp add: local_args_def)
  then have "fst (run_snakemake ?a plain_world) = Inl (NameError ''log'')"
    by (simp add: run_snakemake_past_guard)
  ultimately show ?thesis using snake_command_tokens_eq [of a] by blast
qed

text \<open>
  Claim C9. The claim: in scheduler mode on a registered cluster the script
  \<open>submit_slurm.sh\<close> is written, the header followed by the command, and submitted with
  \<open>sbatch\<close>. The code on \<open>biowulf\<close>, with the header installed: the call raises
  \<open>NameError\<close> for \<open>log\<close> at line 181; the script does not exist and nothing has been
  submitted. Lines 182 to 197, were they reached, would write the script and submit it.
\<close>

theorem slurm_submission_not_reached:
  "fst (get_hpc biowulf_world) = Some ''biowulf'' \<and>
   run_snakemake (local_args\<lparr>mode := ''slurm''\<rparr>) biowulf_world
     = (Inl (NameError ''log''),
        biowulf_world\<lparr>events := [Subprocess ''scontrol show config'']\<rparr>) \<and>
   files (biowulf_world\<lparr>events := [Subprocess ''scontrol show config'']\<rparr>) ''submit_slurm.sh''
     = None \<and>
   files (snd (dispatch ''slurm'' (Some ''biowulf'')
                 ''snakemake -s workflow/Snakefile --cores 2'' biowulf_world)) ''submit_slurm.sh''
     = Some (''#!/bin/bash'' @ [CHR 0x0A] @ ''snakemake -s workflow/Snakefile --cores 2'') \<and>
   events (snd (dispatch ''slurm'' (Some ''biowulf'')
                  ''snakemake -s workflow/Snakefile --cores 2'' biowulf_world))
     = [WriteFile ''submit_slurm.sh'', Subprocess ''sbatch submit_slurm.sh'']"
proof -
  let ?a = "local_args\<lparr>mode := ''slurm''\<rparr>"
  have "\<not> (mode ?a = ''slurm'' \<and> \<not> truthy (fst (get_hpc biowulf_world)))"
    by (simp add: hpc_biowulf truthy_def)
  then have "run_snakemake ?a biowulf_world
     = (Inl (NameError ''log''),
        biowulf_world\<lparr>events := events biowulf_world @ [Subprocess ''scontrol show config'']\<rparr>)"
    by (rule run_snakemake_past_guard)
  moreover have "events biowulf_world = []" by (simp add: biowulf_world_def plain_world_def)
  moreover have "files biowulf_world ''submit_slurm.sh'' = None"
    by (simp add: biowulf_world_def plain_world_def)
  moreover have
    "files (snd (dispatch ''slurm'' (Some ''biowulf'')
                   ''snakemake -s workflow/Snakefile --cores 2'' biowulf_world)) ''submit_slurm.sh''
       = Some (''#!/bin/bash'' @ [CHR 0x0A] @ ''snakemake -s workflow/Snakefile --cores 2'')"
    by (simp add: dispatch_def getitem_def hpc_options_def snake_base_def path_join_def
        biowulf_world_def plain_world_def subprocess_run_check_def Let_def)
  moreover have
    "events (snd (dispatch ''slurm'' (Some ''biowulf'')
                    ''snakemake -s workflow/Snakefile --cores 2'' biowulf_world))
       = [WriteFile ''submit_slurm.sh'', Subprocess ''sbatch submit_slurm.sh'']"
    by (simp add: dispatch_def getitem_def hpc_options_def snake_base_def path_join_def
        biowulf_world_def plain_world_def subprocess_run_check_def Let_def)
  ultimately show ?thesis using hpc_biowulf by simp
qed

end
